theory Spec2Isabelle
  imports Complex_Main "HOL-Library.AList" "HOL-Library.Char_ord" "HOL-Library.List_Lexorder"
begin

section \<open>Python values used by merge\_clusters.py\<close>

text \<open>
  Exceptions are values. \<open>SystemExit\<close> carries the message handed to \<open>sys.exit\<close>.
\<close>

datatype error =
    UnboundLocalError
  | TypeError
  | KeyError
  | AttributeError
  | IndexError
  | ValueError
  | NetworkXError
  | SystemExit string

text \<open>\<open>s.split(sep)\<close> for a one-character separator: every occurrence cuts, empty pieces are kept.\<close>

fun split_on :: "char \<Rightarrow> string \<Rightarrow> string list" where
  "split_on c [] = [[]]"
| "split_on c (x # xs) =
     (if x = c then [] # split_on c xs
      else (case split_on c xs of [] \<Rightarrow> [[x]] | w # ws \<Rightarrow> (x # w) # ws))"

text \<open>\<open>sep.join(xs)\<close>.\<close>

fun join :: "string \<Rightarrow> string list \<Rightarrow> string" where
  "join sep [] = []"
| "join sep [x] = x"
| "join sep (x # y # ys) = x @ sep @ join sep (y # ys)"

text \<open>\<open>str(n)\<close> for an integer: decimal digits, a minus sign for a negative number.\<close>

fun str_nat :: "nat \<Rightarrow> string" where
  "str_nat n = (if n < 10 then [''0123456789'' ! n] else str_nat (n div 10) @ [''0123456789'' ! (n mod 10)])"

declare str_nat.simps [simp del]

definition str :: "int \<Rightarrow> string" where
  "str i = (if i < 0 then CHR ''-'' # str_nat (nat (- i)) else str_nat (nat i))"

section \<open>The cluster table and the dictionary built from it\<close>

text \<open>
  A row of the concatenated cluster table: the columns \<open>ID\<close>, \<open>Members\<close> (identifiers
  separated by single spaces) and \<open>Source\<close> (\<open>DR_<n>\<close>).
\<close>

record cluster_row =
  ID :: string
  Members :: string
  Source :: string

text \<open>\<open>df[df['Source'] == "DR_" + str(dr)]\<close>.\<close>

definition select_decay_rate :: "cluster_row list \<Rightarrow> int \<Rightarrow> cluster_row list" where
  "select_decay_rate df dr = filter (\<lambda>row. Source row = ''DR_'' @ str dr) df"

text \<open>
  \<open>cluster_dict[row['ID']] = row['Members'].split(' ')\<close> over the rows. A Python dict keeps
  the order of first insertion and a later row with the same ID replaces the value in place,
  which is \<open>AList.update\<close>.
\<close>

definition build_cluster_dict :: "cluster_row list \<Rightarrow> (string \<times> string list) list" where
  "build_cluster_dict df =
     foldl (\<lambda>cluster_dict row. AList.update (ID row) (split_on CHR '' '' (Members row)) cluster_dict) [] df"

section \<open>merge\_clusters\_coex\<close>

text \<open>
  A row of the coexpression table. Edge weights and thresholds are rationals: every finite
  double is one and \<open>>=\<close> on finite doubles is the order of the rationals (NaN is left out).
\<close>

record coex_row =
  gene1 :: string
  gene2 :: string
  edgeweight :: rat

text \<open>
  The rows selected for \<open>gene\<close> (source or target, weight at least the threshold) and the
  union of their two gene columns.
\<close>

definition connected_genes :: "coex_row list \<Rightarrow> rat \<Rightarrow> string \<Rightarrow> string set" where
  "connected_genes coexpression_df threshold gene =
     (let connections = filter (\<lambda>r. (gene1 r = gene \<and> edgeweight r \<ge> threshold) \<or>
                                     (gene2 r = gene \<and> edgeweight r \<ge> threshold)) coexpression_df
      in set (map gene1 connections) \<union> set (map gene2 connections))"

text \<open>
  The inner \<open>for gene in current_cluster\<close> loop assigns \<open>connected = True\<close> and breaks at the
  first gene whose connected genes meet the other cluster; it assigns nothing otherwise.
\<close>

definition gene_loop_hits :: "coex_row list \<Rightarrow> rat \<Rightarrow> string set \<Rightarrow> string list \<Rightarrow> bool" where
  "gene_loop_hits coexpression_df threshold current_cluster other_cluster =
     (\<exists>gene \<in> current_cluster. connected_genes coexpression_df threshold gene \<inter> set other_cluster \<noteq> {})"

text \<open>
  One pass of the \<open>for other_key, other_cluster in cluster_dict.items()\<close> loop. The state is
  \<open>(current_cluster, clusters_to_merge, merge_occurred, connected_var)\<close>. The local variable
  \<open>connected\<close> (here \<open>connected_var\<close>) is never initialised in the source: it is
  \<open>None\<close> while unbound, and reading it then raises \<open>UnboundLocalError\<close>. It is never
  reset either.
\<close>

type_synonym pass_state = "string set \<times> string list \<times> bool \<times> bool option"

fun expansion_pass ::
  "coex_row list \<Rightarrow> rat \<Rightarrow> string \<Rightarrow> string set \<Rightarrow> (string \<times> string list) list \<Rightarrow> pass_state
     \<Rightarrow> error + pass_state" where
  "expansion_pass coexpression_df threshold cluster_key visited_clusters [] st = Inr st"
| "expansion_pass coexpression_df threshold cluster_key visited_clusters ((other_key, other_cluster) # rest)
       (current_cluster, clusters_to_merge, merge_occurred, connected_var) =
     (if other_key \<in> visited_clusters \<or> other_key = cluster_key
      then expansion_pass coexpression_df threshold cluster_key visited_clusters rest
             (current_cluster, clusters_to_merge, merge_occurred, connected_var)
      else
        (case (if gene_loop_hits coexpression_df threshold current_cluster other_cluster
               then Some True else connected_var) of
           None \<Rightarrow> Inl UnboundLocalError
         | Some True \<Rightarrow>
             expansion_pass coexpression_df threshold cluster_key visited_clusters rest
               (current_cluster \<union> set other_cluster, clusters_to_merge @ [other_key], True, Some True)
         | Some False \<Rightarrow>
             expansion_pass coexpression_df threshold cluster_key visited_clusters rest
               (current_cluster, clusters_to_merge, merge_occurred, Some False)))"

text \<open>
  The \<open>while merge_occurred\<close> loop: a pass with \<open>merge_occurred\<close> and \<open>clusters_to_merge\<close>
  reset, then \<open>visited_clusters.update(clusters_to_merge)\<close>, again while the pass merged
  something. \<open>None\<close> is a loop that never ends.
\<close>

partial_function (option) expand ::
  "coex_row list \<Rightarrow> rat \<Rightarrow> (string \<times> string list) list \<Rightarrow> string \<Rightarrow> string set \<Rightarrow> string set
     \<Rightarrow> bool option \<Rightarrow> (error + (string set \<times> string set \<times> bool option)) option" where
  [code]: "expand coexpression_df threshold cluster_dict cluster_key visited_clusters current_cluster connected_var =
     (case expansion_pass coexpression_df threshold cluster_key visited_clusters cluster_dict
             (current_cluster, [], False, connected_var) of
        Inl e \<Rightarrow> Some (Inl e)
      | Inr (current_cluster', clusters_to_merge, merge_occurred, connected_var') \<Rightarrow>
          (if merge_occurred
           then expand coexpression_df threshold cluster_dict cluster_key
                  (visited_clusters \<union> set clusters_to_merge) current_cluster' connected_var'
           else Some (Inr (current_cluster', visited_clusters \<union> set clusters_to_merge, connected_var'))))"

text \<open>
  The outer \<open>for cluster_key, cluster in cluster_dict.items()\<close> loop. Its state is
  \<open>(merged_clusters, visited_clusters, connected_var)\<close>: the variable \<open>connected\<close> is
  local to the function, so its value survives from one seed to the next. An output row is
  \<open>(ID, Members)\<close> with the members sorted (strings compare by code point, prefix first)
  and joined by a space.
\<close>

fun seed_loop ::
  "coex_row list \<Rightarrow> rat \<Rightarrow> (string \<times> string list) list \<Rightarrow> (string \<times> string list) list
     \<Rightarrow> (string \<times> string) list \<times> string set \<times> bool option
     \<Rightarrow> (error + (string \<times> string) list) option" where
  "seed_loop coexpression_df threshold cluster_dict [] (merged_clusters, visited_clusters, connected_var) =
     Some (Inr merged_clusters)"
| "seed_loop coexpression_df threshold cluster_dict ((cluster_key, cluster) # rest)
       (merged_clusters, visited_clusters, connected_var) =
     (if cluster_key \<in> visited_clusters
      then seed_loop coexpression_df threshold cluster_dict rest
             (merged_clusters, visited_clusters, connected_var)
      else
        (case expand coexpression_df threshold cluster_dict cluster_key visited_clusters
                (set cluster) connected_var of
           None \<Rightarrow> None
         | Some (Inl e) \<Rightarrow> Some (Inl e)
         | Some (Inr (current_cluster, visited_clusters', connected_var')) \<Rightarrow>
             seed_loop coexpression_df threshold cluster_dict rest
               (merged_clusters @ [(cluster_key, join '' '' (sorted_list_of_set current_cluster))],
                insert cluster_key visited_clusters', connected_var')))"

text \<open>
  \<open>merge_clusters_coex(df, coexpression_df, dr, threshold)\<close>: the rows of the decay rate, the
  dictionary, the seeds. The result is the list of rows of \<open>merged_df\<close>.
\<close>

definition merge_clusters_coex ::
  "cluster_row list \<Rightarrow> coex_row list \<Rightarrow> int \<Rightarrow> rat \<Rightarrow> (error + (string \<times> string) list) option" where
  "merge_clusters_coex df coexpression_df dr threshold =
     (let cluster_dict = build_cluster_dict (select_decay_rate df dr)
      in seed_loop coexpression_df threshold cluster_dict cluster_dict ([], {}, None))"

section \<open>merge\_clusters\_overlapping\<close>

text \<open>
  A Python \<open>set\<close> is a HOL set. The order in which CPython iterates over a set is not
  specified, so every loop and comprehension over a set takes it from the parameter
  \<open>iter\<close>; the properties below assume only that \<open>iter\<close> lists the elements of a finite
  set, each once.
\<close>

definition iteration_order :: "(string set \<Rightarrow> string list) \<Rightarrow> bool" where
  "iteration_order iter = (\<forall>S. finite S \<longrightarrow> set (iter S) = S \<and> distinct (iter S))"

text \<open>
  \<open>if m in m_elements: m_elements[m].append(i) else: m_elements[m] = [i]\<close>; the dict keeps
  its keys in the order of first insertion.
\<close>

definition m_elements_add :: "string \<Rightarrow> nat \<Rightarrow> (string \<times> nat list) list \<Rightarrow> (string \<times> nat list) list" where
  "m_elements_add m i m_elements =
     (case map_of m_elements m of
        Some indices \<Rightarrow> AList.update m (indices @ [i]) m_elements
      | None \<Rightarrow> m_elements @ [(m, [i])])"

text \<open>The loop that populates \<open>m_elements\<close> over \<open>enumerate(clusters)\<close>.\<close>

definition populate ::
  "(string set \<Rightarrow> string list) \<Rightarrow> string list \<Rightarrow> string set list \<Rightarrow> (string \<times> nat list) list" where
  "populate iter metabolite_features clusters =
     foldl (\<lambda>m_elements (i, cluster).
              foldl (\<lambda>m_elements m. m_elements_add m i m_elements) m_elements
                (filter (\<lambda>element. element \<in> set metabolite_features) (iter cluster)))
       [] (enumerate 0 clusters)"

text \<open>
  \<open>for existing_cluster in merged_clusters\<close> with its \<open>break\<close>: the first existing merged set
  that meets the new one is updated in place and the search stops; \<open>None\<close> is the loop's
  \<open>else\<close> branch (no existing set meets the new one).
\<close>

fun update_first_overlap :: "string set \<Rightarrow> string set list \<Rightarrow> string set list option" where
  "update_first_overlap new_merged_set [] = None"
| "update_first_overlap new_merged_set (existing_cluster # rest) =
     (if existing_cluster \<inter> new_merged_set \<noteq> {}
      then Some ((existing_cluster \<union> new_merged_set) # rest)
      else map_option ((#) existing_cluster) (update_first_overlap new_merged_set rest))"

text \<open>
  The body of \<open>for m, indices in m_elements.items()\<close> on the state
  \<open>(merged_clusters, visited_clusters)\<close>. Every index comes from \<open>enumerate(clusters)\<close>, so
  \<open>clusters[index]\<close> is in range.
\<close>

definition merge_step ::
  "string set list \<Rightarrow> string set list \<times> nat set \<Rightarrow> string \<times> nat list \<Rightarrow> string set list \<times> nat set" where
  "merge_step clusters st item =
     (case st of (merged_clusters, visited_clusters) \<Rightarrow>
      case item of (m, indices) \<Rightarrow>
        if length indices > 1 then
          (let visited_clusters' = foldl (\<lambda>v index. insert index v) visited_clusters indices;
               merged_set = foldl (\<lambda>s index. s \<union> clusters ! index) {} indices
           in case update_first_overlap merged_set merged_clusters of
                Some merged_clusters' \<Rightarrow> (merged_clusters', visited_clusters' \<union> set indices)
              | None \<Rightarrow>
                  (if merged_set \<in> set merged_clusters then merged_clusters
                   else merged_clusters @ [merged_set], visited_clusters'))
        else st)"

text \<open>\<open>for i, cluster in enumerate(clusters): if i not in visited_clusters: append\<close>.\<close>

definition add_remaining :: "string set list \<Rightarrow> string set list \<times> nat set \<Rightarrow> string set list" where
  "add_remaining clusters st =
     (case st of (merged_clusters, visited_clusters) \<Rightarrow>
        merged_clusters @ map snd (filter (\<lambda>(i, cluster). i \<notin> visited_clusters) (enumerate 0 clusters)))"

text \<open>The list \<open>merged_clusters\<close> as it stands before the output table is built.\<close>

definition overlap_merged_clusters ::
  "(string set \<Rightarrow> string list) \<Rightarrow> string list \<Rightarrow> string set list \<Rightarrow> string set list" where
  "overlap_merged_clusters iter metabolite_features clusters =
     add_remaining clusters
       (foldl (merge_step clusters) ([], {}) (populate iter metabolite_features clusters))"

text \<open>The two comprehensions that separate a merged cluster into metabolites and genes.\<close>

definition metabolites_genes ::
  "(string set \<Rightarrow> string list) \<Rightarrow> string list \<Rightarrow> string set \<Rightarrow> string list \<times> string list" where
  "metabolites_genes iter metabolite_features cluster =
     (filter (\<lambda>element. element \<in> set metabolite_features) (iter cluster),
      filter (\<lambda>element. element \<notin> set metabolite_features) (iter cluster))"

text \<open>\<open>clusters = [set(cluster_dict[key]) for key in cluster_dict]\<close> for the chosen decay rate.\<close>

definition overlap_clusters :: "cluster_row list \<Rightarrow> int \<Rightarrow> string set list" where
  "overlap_clusters df dr = map (\<lambda>(key, members). set members) (build_cluster_dict (select_decay_rate df dr))"

text \<open>
  \<open>merge_clusters_overlapping(df, metabolite_features, dr)\<close>: the rows
  \<open>(ID, Metabolites, Genes)\<close> of \<open>merged_df\<close>, the two lists joined by a space.
\<close>

definition merge_clusters_overlapping ::
  "(string set \<Rightarrow> string list) \<Rightarrow> cluster_row list \<Rightarrow> string list \<Rightarrow> int \<Rightarrow> (string \<times> string \<times> string) list" where
  "merge_clusters_overlapping iter df metabolite_features dr =
     (let merged_clusters = overlap_merged_clusters iter metabolite_features (overlap_clusters df dr)
      in map (\<lambda>(i, cluster).
                (''MC_'' @ str (int i + 1),
                 join '' '' (fst (metabolites_genes iter metabolite_features cluster)),
                 join '' '' (snd (metabolites_genes iter metabolite_features cluster))))
           (enumerate 0 merged_clusters))"

section \<open>split\_and\_match\<close>

text \<open>
  A cell of a data-frame row is a string or a list of strings; a row maps column names to
  cells. A feature table is a list of rows \<open>(feature, values)\<close>, the values left abstract.
\<close>

datatype cell = Str string | Lst "string list"

text \<open>
  \<open>split_and_match(row, metabolite_df, column)\<close>: \<open>row[column].split(',')\<close>, the members found
  in \<open>metabolite_df['feature']\<close>, and the members not among those. A missing column raises
  \<open>KeyError\<close>, a list has no \<open>split\<close>.
\<close>

definition split_and_match ::
  "(string \<rightharpoonup> cell) \<Rightarrow> (string \<times> 'v) list \<Rightarrow> string \<Rightarrow> error + (string list \<times> string list)" where
  "split_and_match row metabolite_df column =
     (case row column of
        None \<Rightarrow> Inl KeyError
      | Some (Lst xs) \<Rightarrow> Inl AttributeError
      | Some (Str s) \<Rightarrow>
          (let merged_members = split_on CHR '','' s;
               matching = filter (\<lambda>metabolite. metabolite \<in> set (map fst metabolite_df)) merged_members;
               unmatching = filter (\<lambda>metabolite. metabolite \<notin> set matching) merged_members
           in Inr (matching, unmatching)))"

text \<open>
  \<open>cluster_df.apply(split_and_match, args=args, axis=1)\<close> calls
  \<open>split_and_match(row, *args)\<close> on every row. The function has three positional
  parameters, so any \<open>args\<close> that is not \<open>(metabolite_df, column)\<close> raises \<open>TypeError\<close> at
  the first row; \<open>extra\<close> is what \<open>args\<close> holds after \<open>metabolite_df\<close>.
\<close>

definition call_split_and_match ::
  "(string \<times> 'v) list \<Rightarrow> string list \<Rightarrow> (string \<rightharpoonup> cell) \<Rightarrow> error + (string list \<times> string list)" where
  "call_split_and_match metabolite_df extra row =
     (case extra of [column] \<Rightarrow> split_and_match row metabolite_df column | _ \<Rightarrow> Inl TypeError)"

fun apply_rows :: "('a \<Rightarrow> error + 'b) \<Rightarrow> 'a list \<Rightarrow> error + 'b list" where
  "apply_rows f [] = Inr []"
| "apply_rows f (row # rows) =
     (case f row of
        Inl e \<Rightarrow> Inl e
      | Inr y \<Rightarrow> (case apply_rows f rows of Inl e \<Rightarrow> Inl e | Inr ys \<Rightarrow> Inr (y # ys)))"

section \<open>merge\_clusters\_fingerprinting\<close>

text \<open>
  The undirected \<open>nx.Graph\<close>: its nodes in insertion order and its adjacency, which
  \<open>add_edge\<close> writes in both directions. \<open>add_edge\<close> adds the end points it does not know.
\<close>

record graph =
  nodes :: "string list"
  adj :: "((string \<times> string) \<times> rat) list"

definition add_node :: "string \<Rightarrow> graph \<Rightarrow> graph" where
  "add_node n G = (if n \<in> set (nodes G) then G else G\<lparr>nodes := nodes G @ [n]\<rparr>)"

definition add_edge :: "string \<Rightarrow> string \<Rightarrow> rat \<Rightarrow> graph \<Rightarrow> graph" where
  "add_edge u v weight G =
     (let G' = add_node v (add_node u G)
      in G'\<lparr>adj := AList.update (v, u) weight (AList.update (u, v) weight (adj G'))\<rparr>)"

text \<open>
  The association matrix \<open>corr_df\<close>: its rows in order, each the index label and the items
  \<open>(column label, value)\<close>. The graph of the two nested loops over it.
\<close>

type_synonym corr_frame = "(string \<times> (string \<times> rat) list) list"

definition build_graph :: "corr_frame \<Rightarrow> rat \<Rightarrow> graph" where
  "build_graph corr_df threshold =
     foldl (\<lambda>G (i, row).
              foldl (\<lambda>G (j, val). if i \<noteq> j \<and> val \<ge> threshold then add_edge i j val G else G)
                (add_node i G) row)
       \<lparr>nodes = [], adj = []\<rparr> corr_df"

text \<open>
  \<open>nx.to_scipy_sparse_array(G)\<close>: the adjacency matrix in node order, zero where there is no
  edge. networkx raises \<open>NetworkXError\<close> (``Graph has no nodes or edges'') for a graph
  without nodes.
\<close>

definition to_scipy_sparse_array :: "graph \<Rightarrow> error + rat list list" where
  "to_scipy_sparse_array G =
     (if nodes G = [] then Inl NetworkXError
      else Inr (map (\<lambda>u. map (\<lambda>v. case map_of (adj G) (u, v) of None \<Rightarrow> 0 | Some w \<Rightarrow> w) (nodes G))
                  (nodes G)))"

text \<open>\<open>corr_df.index[i]\<close> for a position \<open>i\<close> returned by the partitioner.\<close>

definition index_label :: "corr_frame \<Rightarrow> nat \<Rightarrow> error + string" where
  "index_label corr_df i = (if i < length corr_df then Inr (fst (corr_df ! i)) else Inl IndexError)"

text \<open>
  \<open>id_to_members.get(cluster_id, '')\<close> on \<open>raw_df.set_index('ID')['Members'].to_dict()\<close>: the
  last row with that ID counts.
\<close>

definition id_to_members :: "(string \<times> string) list \<Rightarrow> string \<Rightarrow> string" where
  "id_to_members raw_df cluster_id = (case map_of (rev raw_df) cluster_id of None \<Rightarrow> [] | Some members \<Rightarrow> members)"

definition merge_members :: "(string \<times> string) list \<Rightarrow> string list \<Rightarrow> string" where
  "merge_members raw_df cluster = join '', '' (map (id_to_members raw_df) cluster)"

text \<open>
  \<open>merge_clusters_fingerprinting(raw_df, corr_df, metabolite_df, threshold, inflation)\<close>.
  The partitioner \<open>mc.get_clusters(mc.run_mcl(adjacency_matrix))\<close> is the parameter
  \<open>mcl\<close>, from the adjacency matrix to clusters of node positions; \<open>inflation\<close> is
  not passed on by the source. \<open>raw_df\<close> is the frame of \<open>(ID, Members)\<close>. The rows of the
  result are \<open>(Cluster, metabolites, genes)\<close>, each joined by \<open>', '\<close>.
\<close>

definition merge_clusters_fingerprinting ::
  "(rat list list \<Rightarrow> nat list list) \<Rightarrow> (string \<times> string) list \<Rightarrow> corr_frame \<Rightarrow> (string \<times> 'v) list
     \<Rightarrow> rat \<Rightarrow> rat \<Rightarrow> error + (string \<times> string \<times> string) list" where
  "merge_clusters_fingerprinting mcl raw_df corr_df metabolite_df threshold inflation =
     (case to_scipy_sparse_array (build_graph corr_df threshold) of
        Inl e \<Rightarrow> Inl e
      | Inr adjacency_matrix \<Rightarrow>
          (case apply_rows (apply_rows (index_label corr_df)) (mcl adjacency_matrix) of
             Inl e \<Rightarrow> Inl e
           | Inr clustered_columns \<Rightarrow>
               (let cluster_df = map (\<lambda>cluster. split_on CHR '','' (join '','' cluster)) clustered_columns;
                    rows = map (\<lambda>cluster. [''Cluster'' \<mapsto> Lst cluster,
                                            ''Merged Members'' \<mapsto> Str (merge_members raw_df cluster)])
                             cluster_df
                in case apply_rows (call_split_and_match metabolite_df []) rows of
                     Inl e \<Rightarrow> Inl e
                   | Inr split_lists \<Rightarrow>
                       Inr (map (\<lambda>(cluster, (metabolites, genes)).
                                   (join '', '' cluster, join '', '' metabolites, join '', '' genes))
                              (zip cluster_df split_lists)))))"

text \<open>A partitioner for a graph without edges: every node position is a cluster of its own.\<close>

definition isolated_partition :: "rat list list \<Rightarrow> nat list list" where
  "isolated_partition adjacency_matrix = map (\<lambda>i. [i]) [0..<length adjacency_matrix]"

section \<open>fill\_extracted\_rows\<close>







section \<open>The dispatch on the merge method in main\<close>

text \<open>
  The options the dispatch reads. \<open>merge_clusters\<close> is the flag of \<open>-mc\<close> (a bool),
  \<open>merge_method\<close> the string of \<open>-mm\<close>.
\<close>

record options =
  merge_clusters :: bool
  merge_method :: string
  targeted_list :: string
  evidence :: bool
  evidence_source :: string
  quantitation_matrix :: string

text \<open>Python's \<open>==\<close> between values of the two types met here: a bool never equals a string.\<close>

datatype pyval = PyBool bool | PyStr string

datatype branch =
    Overlap_targeted
  | Overlap_all_metabolites
  | Fingerprinting
  | Coexpression
  | Exit string
  | No_merge

text \<open>The \<open>if Options.merge_clusters:\<close> block of \<open>main\<close>: which merger runs, or which exit.\<close>

definition merge_dispatch :: "options \<Rightarrow> branch" where
  "merge_dispatch Options =
     (if merge_clusters Options then
        (if merge_method Options = ''overlap'' then
           (if targeted_list Options \<noteq> [] then Overlap_targeted else Overlap_all_metabolites)
         else if PyBool (merge_clusters Options) = PyStr ''fingerprinting'' then Fingerprinting
         else if merge_method Options = ''coexpression'' then
           (if evidence Options then
              (if evidence_source Options = ''coex'' then
                 (if quantitation_matrix Options \<noteq> [] then Coexpression
                  else Exit ''Coexpression table is not provided.'')
               else Exit ''Evidence source is not coexpression.'')
            else Exit ''Evidence is not set to True.'')
         else Exit ''Not a valid method for merging cluster. Try again!'')
      else No_merge)"

section \<open>association\_strength and the association matrix\<close>

text \<open>
  A double is a real number or NaN, which is \<open>None\<close>; rounding is left out. The
  fingerprints are lists of doubles that are numbers.
\<close>

definition mean :: "real list \<Rightarrow> real" where
  "mean x = sum_list x / real (length x)"

text \<open>The steps of \<open>np.cov\<close> with its default \<open>ddof = 1\<close>: subtract the mean, multiply, divide by \<open>N - 1\<close>.\<close>

definition deviations :: "real list \<Rightarrow> real list" where
  "deviations x = map (\<lambda>a. a - mean x) x"

definition dot :: "real list \<Rightarrow> real list \<Rightarrow> real" where
  "dot a b = sum_list (map2 (*) a b)"

definition cov :: "real list \<Rightarrow> real list \<Rightarrow> real" where
  "cov x y = dot (deviations x) (deviations y) / (real (length x) - 1)"





section \<open>Inputs of the scenarios\<close>

text \<open>Two clusters of one gene each at decay rate 25, a third one, and one edge of weight 0.9.\<close>

definition scenario_clusters :: "cluster_row list" where
  "scenario_clusters =
     [\<lparr>ID = ''X'', Members = ''g1'', Source = ''DR_25''\<rparr>,
      \<lparr>ID = ''Y'', Members = ''g2'', Source = ''DR_25''\<rparr>]"

definition scenario_clusters_3 :: "cluster_row list" where
  "scenario_clusters_3 = scenario_clusters @ [\<lparr>ID = ''Z'', Members = ''g3'', Source = ''DR_25''\<rparr>]"

definition scenario_edges :: "coex_row list" where
  "scenario_edges = [\<lparr>gene1 = ''g1'', gene2 = ''g2'', edgeweight = 9 / 10\<rparr>]"

text \<open>
  Five clusters of metabolites linked in a chain: A and D share m2, D and E share m4,
  E and C share m3, C and B share m1.
\<close>

definition chain_clusters :: "cluster_row list" where
  "chain_clusters =
     [\<lparr>ID = ''A'', Members = ''m2'', Source = ''DR_25''\<rparr>,
      \<lparr>ID = ''B'', Members = ''m1'', Source = ''DR_25''\<rparr>,
      \<lparr>ID = ''C'', Members = ''m1 m3'', Source = ''DR_25''\<rparr>,
      \<lparr>ID = ''D'', Members = ''m2 m4'', Source = ''DR_25''\<rparr>,
      \<lparr>ID = ''E'', Members = ''m3 m4'', Source = ''DR_25''\<rparr>]"




section \<open>Invariants of the overlap merger\<close>

text \<open>Every index recorded in \<open>m_elements\<close> is a position of \<open>clusters\<close>.\<close>

definition indices_below :: "nat \<Rightarrow> (string \<times> nat list) list \<Rightarrow> bool" where
  "indices_below n m_elements = (\<forall>(m, indices) \<in> set m_elements. \<forall>i \<in> set indices. i < n)"

text \<open>
  The state of the merge loop: the merged sets hold exactly the members of the visited
  clusters, the visited indices are positions of \<open>clusters\<close>, and merged sets of finite
  clusters are finite.
\<close>

definition merge_inv :: "string set list \<Rightarrow> string set list \<times> nat set \<Rightarrow> bool" where
  "merge_inv clusters st =
     (\<Union>(set (fst st)) = (\<Union>i\<in>snd st. clusters ! i) \<and> snd st \<subseteq> {..<length clusters} \<and>
      ((\<forall>c\<in>set clusters. finite c) \<longrightarrow> (\<forall>S\<in>set (fst st). finite S)))"

section \<open>The expansion loop of the coexpression merger ends\<close>






section \<open>The scenarios of the coexpression merger\<close>

text \<open>
  C1. The scenario of the claim, on the code. With threshold 0.5 the two clusters are
  merged into one row with the members g1 and g2. With threshold 0.95 no gene of X is
  connected to Y, the variable \<open>connected\<close> is read before any assignment, and the call
  ends with \<open>UnboundLocalError\<close> instead of two unmerged clusters. With a third cluster Z
  that no edge reaches, threshold 0.5 absorbs Z as well, because \<open>connected\<close> keeps the
  value \<open>True\<close> it got for Y.
\<close>

theorem coex_scenario:
  "merge_clusters_coex scenario_clusters scenario_edges 25 (1 / 2) = Some (Inr [(''X'', ''g1 g2'')]) \<and>
   merge_clusters_coex scenario_clusters scenario_edges 25 (95 / 100) = Some (Inl UnboundLocalError) \<and>
   merge_clusters_coex scenario_clusters_3 scenario_edges 25 (1 / 2) = Some (Inr [(''X'', ''g1 g2 g3'')])"
  by code_simp

section \<open>The fingerprint merger returns no merged cluster\<close>

lemma apply_without_column:
  "apply_rows (call_split_and_match metabolite_df []) rows = Inr ys \<Longrightarrow> rows = [] \<and> ys = []"
  by (cases rows) (simp_all add: call_split_and_match_def)

text \<open>
  C3. Whatever the partitioner, the cluster table, the association matrix, the metabolite
  table and the parameters are, the fingerprint merger never returns a table with a row:
  the call of \<open>split_and_match\<close> through \<open>apply\<close> lacks the argument \<open>column\<close> and
  raises \<open>TypeError\<close> at the first row. On one cluster c1 with the members m1 and g1 the
  graph has the node c1, the partition is the cluster of position 0, and the merger ends
  with \<open>TypeError\<close>, so no member of the input is in its output.
\<close>

theorem fingerprinting_type_error:
  "merge_clusters_fingerprinting mcl raw_df corr_df metabolite_df threshold inflation \<noteq> Inr (row # rows) \<and>
   merge_clusters_fingerprinting isolated_partition [(''c1'', ''m1 g1'')] [(''c1'', [(''c1'', 1)])]
       [(''m1'', ())] (1 / 2) 2
     = Inl TypeError"
proof
  show "merge_clusters_fingerprinting mcl raw_df corr_df metabolite_df threshold inflation \<noteq> Inr (row # rows)"
    unfolding merge_clusters_fingerprinting_def Let_def
    by (auto split: sum.splits dest!: apply_without_column)
  show "merge_clusters_fingerprinting isolated_partition [(''c1'', ''m1 g1'')] [(''c1'', [(''c1'', 1)])]
       [(''m1'', ())] (1 / 2) 2 = Inl TypeError"
    by code_simp
qed

section \<open>The dispatch on the method fingerprinting\<close>

text \<open>
  C4. With merging requested and the method \<open>fingerprinting\<close>, whatever the other options
  are, the dispatch ends in the exit of the invalid method; no options at all reach the
  branch of the fingerprint merger, whose test compares the flag \<open>merge_clusters\<close> with a
  string.
\<close>

theorem dispatch_fingerprinting:
  "merge_dispatch (Options\<lparr>merge_clusters := True, merge_method := ''fingerprinting''\<rparr>)
     = Exit ''Not a valid method for merging cluster. Try again!'' \<and>
   merge_dispatch Options \<noteq> Fingerprinting"
  by (simp add: merge_dispatch_def)

section \<open>The fingerprint merger on an empty association matrix\<close>

text \<open>
  C7, as amended. With an empty association matrix the fingerprint merger skips nothing:
  it builds the graph without nodes and hands it to the conversion into an adjacency
  matrix, which raises \<open>NetworkXError\<close>. Whatever the partitioner, the cluster table, the
  metabolite table, the threshold and the inflation are, the call fails with that error.
\<close>

theorem fingerprinting_empty_matrix:
  "merge_clusters_fingerprinting mcl raw_df [] metabolite_df threshold inflation = Inl NetworkXError"
  by (simp add: merge_clusters_fingerprinting_def build_graph_def to_scipy_sparse_array_def)

text \<open>
  C7 as stated fails: on the empty matrix, with no cluster and no metabolite, the result
  is not the empty table.
\<close>

theorem fingerprinting_empty_counterexample:
  "merge_clusters_fingerprinting isolated_partition [] [] ([] :: (string \<times> unit) list) (1 / 2) 2 \<noteq> Inr []"
  by (simp add: merge_clusters_fingerprinting_def build_graph_def to_scipy_sparse_array_def)

section \<open>The transcript table comes first in fill\_extracted\_rows\<close>





section \<open>The overlap merger loses no member and splits every merged set in two\<close>

lemma foldl_invariant:
  assumes "P a" and "\<And>a x. P a \<Longrightarrow> x \<in> set xs \<Longrightarrow> P (f a x)"
  shows "P (foldl f a xs)"
  using assms by (induction xs arbitrary: a) auto

lemma set_update_subset: "set (AList.update k v al) \<subseteq> insert (k, v) (set al)"
  by (induction al) auto

lemma m_elements_add_below:
  assumes "indices_below n al" "i < n"
  shows "indices_below n (m_elements_add m i al)"
proof (cases "map_of al m")
  case None
  then show ?thesis using assms by (auto simp: m_elements_add_def indices_below_def)
next
  case (Some idx)
  then have "(m, idx) \<in> set al" by (rule map_of_SomeD)
  then have new: "\<forall>j\<in>set (idx @ [i]). j < n" using assms by (auto simp: indices_below_def)
  have "indices_below n (AList.update m (idx @ [i]) al)"
    unfolding indices_below_def
  proof (intro ballI, clarify)
    fix k ks j
    assume "(k, ks) \<in> set (AList.update m (idx @ [i]) al)" and j: "j \<in> set ks"
    then have "(k, ks) = (m, idx @ [i]) \<or> (k, ks) \<in> set al"
      using set_update_subset[of m "idx @ [i]" al] by blast
    then show "j < n"
    proof
      assume "(k, ks) = (m, idx @ [i])"
      with new j show ?thesis by blast
    next
      assume "(k, ks) \<in> set al"
      with assms(1) j show ?thesis unfolding indices_below_def by blast
    qed
  qed
  then show ?thesis using Some by (simp add: m_elements_add_def)
qed


lemma inner_below:
  assumes "indices_below n a" "i < n"
  shows "indices_below n (foldl (\<lambda>m_elements m. m_elements_add m i m_elements) a ms)"
  using assms(1)
proof (induction ms arbitrary: a)
  case Nil
  then show ?case by simp
next
  case (Cons m ms)
  from Cons.prems assms(2) have "indices_below n (m_elements_add m i a)"
    by (rule m_elements_add_below)
  from Cons.IH[OF this] show ?case by simp
qed

lemma populate_below: "indices_below (length clusters) (populate iter metabolite_features clusters)"
proof -
  have step: "\<And>a x. indices_below (length clusters) a \<Longrightarrow> x \<in> set (enumerate 0 clusters) \<Longrightarrow>
     indices_below (length clusters) ((\<lambda>m_elements (i, cluster).
              foldl (\<lambda>m_elements m. m_elements_add m i m_elements) m_elements
                (filter (\<lambda>element. element \<in> set metabolite_features) (iter cluster))) a x)"
  proof -
    fix a x
    assume a: "indices_below (length clusters) a" and x: "x \<in> set (enumerate 0 clusters)"
    obtain i c where ic: "x = (i, c)" by (cases x)
    with x have "i < length clusters" by (simp add: in_set_enumerate_eq)
    with a show "indices_below (length clusters) ((\<lambda>m_elements (i, cluster).
              foldl (\<lambda>m_elements m. m_elements_add m i m_elements) m_elements
                (filter (\<lambda>element. element \<in> set metabolite_features) (iter cluster))) a x)"
      unfolding ic prod.case by (rule inner_below)
  qed
  have base: "indices_below (length clusters) []" by (simp add: indices_below_def)
  show ?thesis
    unfolding populate_def
    by (rule foldl_invariant[where P = "indices_below (length clusters)", OF base step])
qed

lemma foldl_insert: "foldl (\<lambda>v index. insert index v) V xs = V \<union> set xs"
  by (induction xs arbitrary: V) auto

lemma foldl_union: "foldl (\<lambda>s index. s \<union> f index) S xs = S \<union> (\<Union>i\<in>set xs. f i)"
  by (induction xs arbitrary: S) auto

lemma update_first_overlap_union:
  "update_first_overlap new merged = Some merged' \<Longrightarrow> \<Union>(set merged') = \<Union>(set merged) \<union> new"
proof (induction merged arbitrary: merged')
  case Nil
  then show ?case by simp
next
  case (Cons e es)
  show ?case
  proof (cases "e \<inter> new \<noteq> {}")
    case True
    with Cons.prems have "merged' = (e \<union> new) # es" by simp
    then show ?thesis by auto
  next
    case False
    with Cons.prems obtain es' where es': "update_first_overlap new es = Some es'" "merged' = e # es'"
      by auto
    from Cons.IH[OF es'(1)] es'(2) show ?thesis by auto
  qed
qed

lemma update_first_overlap_finite:
  "update_first_overlap new merged = Some merged' \<Longrightarrow> \<forall>S\<in>set merged. finite S \<Longrightarrow> finite new
     \<Longrightarrow> \<forall>S\<in>set merged'. finite S"
proof (induction merged arbitrary: merged')
  case Nil
  then show ?case by simp
next
  case (Cons e es)
  show ?case
  proof (cases "e \<inter> new \<noteq> {}")
    case True
    with Cons.prems(1) have "merged' = (e \<union> new) # es" by simp
    with Cons.prems(2,3) show ?thesis by simp
  next
    case False
    with Cons.prems(1) obtain es' where es': "update_first_overlap new es = Some es'" "merged' = e # es'"
      by auto
    from Cons.IH[OF es'(1)] Cons.prems(2,3) es'(2) show ?thesis by simp
  qed
qed


lemma merge_step_unfold:
  "merge_step clusters (merged, visited) (m, indices) =
     (if length indices > 1 then
        (case update_first_overlap (\<Union>i\<in>set indices. clusters ! i) merged of
           Some merged' \<Rightarrow> (merged', visited \<union> set indices)
         | None \<Rightarrow> (if (\<Union>i\<in>set indices. clusters ! i) \<in> set merged then merged
                    else merged @ [\<Union>i\<in>set indices. clusters ! i], visited \<union> set indices))
      else (merged, visited))"
  by (simp add: merge_step_def Let_def foldl_insert foldl_union Un_assoc split: option.splits)

lemma merge_step_inv:
  assumes inv: "merge_inv clusters st" and idx: "\<forall>i\<in>set (snd item). i < length clusters"
  shows "merge_inv clusters (merge_step clusters st item)"
proof -
  obtain merged visited where st: "st = (merged, visited)" by (cases st)
  obtain m indices where item: "item = (m, indices)" by (cases item)
  define new where "new = (\<Union>i\<in>set indices. clusters ! i)"
  from inv have cov: "\<Union>(set merged) = (\<Union>i\<in>visited. clusters ! i)"
    and vis: "visited \<subseteq> {..<length clusters}"
    and fin: "(\<forall>c\<in>set clusters. finite c) \<Longrightarrow> (\<forall>S\<in>set merged. finite S)"
    by (simp_all add: merge_inv_def st)
  have sub: "set indices \<subseteq> {..<length clusters}" using idx item by auto
  have fnew: "(\<forall>c\<in>set clusters. finite c) \<Longrightarrow> finite new"
    unfolding new_def using sub by auto
  have covn: "(\<Union>i\<in>visited \<union> set indices. clusters ! i) = \<Union>(set merged) \<union> new"
    unfolding new_def cov by auto
  show ?thesis
  proof (cases "length indices > 1")
    case False
    then show ?thesis using inv by (simp add: merge_step_unfold st item)
  next
    case True
    show ?thesis
    proof (cases "update_first_overlap new merged")
      case (Some merged')
      have r: "merge_step clusters st item = (merged', visited \<union> set indices)"
        using True Some by (simp add: merge_step_unfold st item new_def)
      have "\<Union>(set merged') = \<Union>(set merged) \<union> new"
        using Some by (rule update_first_overlap_union)
      moreover have "(\<forall>c\<in>set clusters. finite c) \<longrightarrow> (\<forall>S\<in>set merged'. finite S)"
        using update_first_overlap_finite[OF Some] fin fnew by blast
      ultimately show ?thesis
        unfolding r merge_inv_def fst_conv snd_conv covn using vis sub by simp
    next
      case None
      show ?thesis
      proof (cases "new \<in> set merged")
        case in_m: True
        have r: "merge_step clusters st item = (merged, visited \<union> set indices)"
          using True None in_m by (simp add: merge_step_unfold st item new_def)
        have "\<Union>(set merged) = \<Union>(set merged) \<union> new" using in_m by auto
        then show ?thesis
          unfolding r merge_inv_def fst_conv snd_conv covn using vis sub fin by simp
      next
        case not_m: False
        have r: "merge_step clusters st item = (merged @ [new], visited \<union> set indices)"
          using True None not_m by (simp add: merge_step_unfold st item new_def)
        have "\<Union>(set (merged @ [new])) = \<Union>(set merged) \<union> new" by auto
        moreover have "(\<forall>c\<in>set clusters. finite c) \<longrightarrow> (\<forall>S\<in>set (merged @ [new]). finite S)"
          using fin fnew by auto
        ultimately show ?thesis
          unfolding r merge_inv_def fst_conv snd_conv covn using vis sub by simp
      qed
    qed
  qed
qed

lemma merge_loop_inv:
  "merge_inv clusters (foldl (merge_step clusters) ([], {}) (populate iter metabolite_features clusters))"
proof -
  have base: "merge_inv clusters ([], {})" by (simp add: merge_inv_def)
  have step: "\<And>a x. merge_inv clusters a \<Longrightarrow> x \<in> set (populate iter metabolite_features clusters)
      \<Longrightarrow> merge_inv clusters (merge_step clusters a x)"
  proof -
    fix a x
    assume a: "merge_inv clusters a" and x: "x \<in> set (populate iter metabolite_features clusters)"
    from x populate_below[of clusters iter metabolite_features]
    have "\<forall>i\<in>set (snd x). i < length clusters"
      unfolding indices_below_def by (cases x) auto
    with a show "merge_inv clusters (merge_step clusters a x)" by (rule merge_step_inv)
  qed
  show ?thesis
    by (rule foldl_invariant[where P = "merge_inv clusters", OF base step])
qed


lemma set_remaining:
  "set (map snd (filter (\<lambda>(i, cluster). i \<notin> V) (enumerate 0 clusters)))
     = {clusters ! i | i. i < length clusters \<and> i \<notin> V}"
proof (rule set_eqI)
  fix S
  show "S \<in> set (map snd (filter (\<lambda>(i, cluster). i \<notin> V) (enumerate 0 clusters)))
      \<longleftrightarrow> S \<in> {clusters ! i | i. i < length clusters \<and> i \<notin> V}"
  proof
    assume "S \<in> set (map snd (filter (\<lambda>(i, cluster). i \<notin> V) (enumerate 0 clusters)))"
    then obtain i where "(i, S) \<in> set (enumerate 0 clusters)" "i \<notin> V" by auto
    then have "i < length clusters" "clusters ! i = S" "i \<notin> V"
      by (simp_all add: in_set_enumerate_eq)
    then show "S \<in> {clusters ! i | i. i < length clusters \<and> i \<notin> V}" by blast
  next
    assume "S \<in> {clusters ! i | i. i < length clusters \<and> i \<notin> V}"
    then obtain i where i: "i < length clusters" "i \<notin> V" "S = clusters ! i" by blast
    then have "(i, S) \<in> set (enumerate 0 clusters)" by (simp add: in_set_enumerate_eq)
    with i(2) have "(i, S) \<in> set (filter (\<lambda>(i, cluster). i \<notin> V) (enumerate 0 clusters))" by simp
    then show "S \<in> set (map snd (filter (\<lambda>(i, cluster). i \<notin> V) (enumerate 0 clusters)))"
      by force
  qed
qed

lemma overlap_merged_clusters_unfold:
  assumes "foldl (merge_step clusters) ([], {}) (populate iter metabolite_features clusters) = (merged, visited)"
  shows "set (overlap_merged_clusters iter metabolite_features clusters)
      = set merged \<union> {clusters ! i | i. i < length clusters \<and> i \<notin> visited}"
  unfolding overlap_merged_clusters_def assms add_remaining_def prod.case set_append set_remaining ..

lemma overlap_coverage:
  "\<Union>(set (overlap_merged_clusters iter metabolite_features clusters)) = \<Union>(set clusters)"
proof -
  obtain merged visited where st:
    "foldl (merge_step clusters) ([], {}) (populate iter metabolite_features clusters) = (merged, visited)"
    by (cases "foldl (merge_step clusters) ([], {}) (populate iter metabolite_features clusters)")
  from merge_loop_inv[of clusters iter metabolite_features]
  have inv: "\<Union>(set merged) = (\<Union>i\<in>visited. clusters ! i)" "visited \<subseteq> {..<length clusters}"
    by (simp_all add: st merge_inv_def)
  have "\<Union>(set (overlap_merged_clusters iter metabolite_features clusters))
      = (\<Union>i\<in>visited. clusters ! i) \<union> \<Union>{clusters ! i | i. i < length clusters \<and> i \<notin> visited}"
    unfolding overlap_merged_clusters_unfold[OF st] Union_Un_distrib inv(1) ..
  also have "\<dots> = \<Union>(set clusters)"
  proof (rule set_eqI)
    fix x
    show "x \<in> (\<Union>i\<in>visited. clusters ! i) \<union> \<Union>{clusters ! i | i. i < length clusters \<and> i \<notin> visited}
       \<longleftrightarrow> x \<in> \<Union>(set clusters)"
    proof
      assume "x \<in> (\<Union>i\<in>visited. clusters ! i) \<union> \<Union>{clusters ! i | i. i < length clusters \<and> i \<notin> visited}"
      then obtain i where "i < length clusters" "x \<in> clusters ! i" using inv(2) by blast
      then show "x \<in> \<Union>(set clusters)" using nth_mem by blast
    next
      assume "x \<in> \<Union>(set clusters)"
      then obtain i where i: "i < length clusters" "x \<in> clusters ! i"
        by (auto simp: in_set_conv_nth)
      show "x \<in> (\<Union>i\<in>visited. clusters ! i) \<union> \<Union>{clusters ! i | i. i < length clusters \<and> i \<notin> visited}"
      proof (cases "i \<in> visited")
        case True
        with i show ?thesis by blast
      next
        case False
        with i show ?thesis by blast
      qed
    qed
  qed
  finally show ?thesis .
qed



lemma iteration_order_sorted: "iteration_order sorted_list_of_set"
  by (simp add: iteration_order_def)



section \<open>A chain of shared anchors in the overlap merger\<close>

lemma iter_single: "iteration_order iter \<Longrightarrow> iter {a} = [a]"
proof -
  assume "iteration_order iter"
  then have s: "set (iter {a}) = {a}" and d: "distinct (iter {a})"
    by (simp_all add: iteration_order_def)
  show ?thesis
  proof (cases "iter {a}")
    case Nil
    with s show ?thesis by simp
  next
    case (Cons x xs)
    with s d have "x = a" "set xs \<subseteq> {a}" "a \<notin> set xs" by auto
    then have "xs = []" by (cases xs) auto
    with Cons \<open>x = a\<close> show ?thesis by simp
  qed
qed

lemma iter_pair:
  assumes "iteration_order iter" "a \<noteq> b"
  shows "iter {a, b} = [a, b] \<or> iter {a, b} = [b, a]"
proof -
  from assms(1) have s: "set (iter {a, b}) = {a, b}" and d: "distinct (iter {a, b})"
    by (simp_all add: iteration_order_def)
  from d have "length (iter {a, b}) = card (set (iter {a, b}))" by (simp add: distinct_card)
  with s assms(2) have "length (iter {a, b}) = 2" by simp
  then obtain x y where xy: "iter {a, b} = [x, y]"
    by (cases "iter {a, b}"; cases "tl (iter {a, b})") (auto simp: length_Suc_conv)
  with s d have "{x, y} = {a, b}" "x \<noteq> y" by auto
  then have "(x = a \<and> y = b) \<or> (x = b \<and> y = a)" by (auto simp: doubleton_eq_iff)
  with xy show ?thesis by auto
qed

lemma chain_clusters_sets:
  "overlap_clusters chain_clusters 25 = [{''m2''}, {''m1''}, {''m1'', ''m3''}, {''m2'', ''m4''}, {''m3'', ''m4''}]"
  by code_simp

lemma chain_populate:
  assumes "iteration_order iter"
  shows "populate iter [''m1'', ''m2'', ''m3'', ''m4'']
           [{''m2''}, {''m1''}, {''m1'', ''m3''}, {''m2'', ''m4''}, {''m3'', ''m4''}]
         = [(''m2'', [0, 3]), (''m1'', [1, 2]), (''m3'', [2, 4]), (''m4'', [3, 4])]"
proof -
  note s = iter_single[OF assms]
  have p1: "iter {''m1'', ''m3''} = [''m1'', ''m3''] \<or> iter {''m1'', ''m3''} = [''m3'', ''m1'']"
    by (rule iter_pair[OF assms]) simp
  have p2: "iter {''m2'', ''m4''} = [''m2'', ''m4''] \<or> iter {''m2'', ''m4''} = [''m4'', ''m2'']"
    by (rule iter_pair[OF assms]) simp
  have p3: "iter {''m3'', ''m4''} = [''m3'', ''m4''] \<or> iter {''m3'', ''m4''} = [''m4'', ''m3'']"
    by (rule iter_pair[OF assms]) simp
  have e: "enumerate 0 [{''m2''}, {''m1''}, {''m1'', ''m3''}, {''m2'', ''m4''}, {''m3'', ''m4''}]
    = [(0, {''m2''}), (1, {''m1''}), (2, {''m1'', ''m3''}), (3, {''m2'', ''m4''}), (4, {''m3'', ''m4''})]"
    by (simp add: enumerate_eq_zip upt_rec)
  from p1 p2 p3 show ?thesis
    unfolding populate_def e
    by (elim disjE) (simp_all add: s m_elements_add_def)
qed

lemma chain_merge:
  "add_remaining [{''m2''}, {''m1''}, {''m1'', ''m3''}, {''m2'', ''m4''}, {''m3'', ''m4''}]
     (foldl (merge_step [{''m2''}, {''m1''}, {''m1'', ''m3''}, {''m2'', ''m4''}, {''m3'', ''m4''}]) ([], {})
        [(''m2'', [0, 3]), (''m1'', [1, 2]), (''m3'', [2, 4]), (''m4'', [3, 4])])
   = [{''m1'', ''m2'', ''m3'', ''m4''}, {''m1'', ''m3''}]"
  by code_simp

text \<open>
  C2. On the chain of five clusters, with every member an anchor and whatever the
  iteration order of sets, the overlap merger emits two merged sets that share m1 and m3:
  the set built for the anchor m3 meets both merged sets made before, the first is
  updated and the \<open>break\<close> leaves the second as it was. The clusters form one chain of
  shared anchors and the output is not pairwise disjoint.
\<close>

theorem overlap_chain:
  assumes "iteration_order iter"
  shows "overlap_merged_clusters iter [''m1'', ''m2'', ''m3'', ''m4''] (overlap_clusters chain_clusters 25)
     = [{''m1'', ''m2'', ''m3'', ''m4''}, {''m1'', ''m3''}]"
  unfolding chain_clusters_sets overlap_merged_clusters_def chain_populate[OF assms]
  by (rule chain_merge)

theorem overlap_chain_witness:
  "iteration_order sorted_list_of_set \<and>
   overlap_merged_clusters sorted_list_of_set [''m1'', ''m2'', ''m3'', ''m4''] (overlap_clusters chain_clusters 25)
     = [{''m1'', ''m2'', ''m3'', ''m4''}, {''m1'', ''m3''}] \<and>
   merge_clusters_overlapping sorted_list_of_set chain_clusters [''m1'', ''m2'', ''m3'', ''m4''] 25
     = [(''MC_1'', ''m1 m2 m3 m4'', []), (''MC_2'', ''m1 m3'', [])]"
proof -
  have "merge_clusters_overlapping sorted_list_of_set chain_clusters [''m1'', ''m2'', ''m3'', ''m4''] 25
     = [(''MC_1'', ''m1 m2 m3 m4'', []), (''MC_2'', ''m1 m3'', [])]"
    by code_simp
  with overlap_chain[OF iteration_order_sorted] iteration_order_sorted show ?thesis by simp
qed

section \<open>The similarity graph at threshold 1\<close>

lemma adj_add_node: "adj (add_node n G) = adj G"
  by (simp add: add_node_def)

lemma keys_add_edge:
  "fst ` set (adj (add_edge u v w G)) = insert (u, v) (insert (v, u) (fst ` set (adj G)))"
  by (auto simp: add_edge_def Let_def dom_update adj_add_node)

lemma keys_row:
  "fst ` set (adj (foldl (\<lambda>G (j, val). if i \<noteq> j \<and> val \<ge> th then add_edge i j val G else G) G row))
     = fst ` set (adj G) \<union>
       {(a, b). \<exists>j val. (j, val) \<in> set row \<and> i \<noteq> j \<and> val \<ge> th \<and> ((a, b) = (i, j) \<or> (a, b) = (j, i))}"
proof (induction row arbitrary: G)
  case Nil
  then show ?case by simp
next
  case (Cons p row)
  obtain j val where p: "p = (j, val)" by (cases p)
  show ?case
    unfolding p foldl_Cons
    apply (subst Cons.IH)
    apply (auto simp: keys_add_edge)
    done
qed

lemma keys_build:
  "fst ` set (adj (foldl (\<lambda>G (i, row).
              foldl (\<lambda>G (j, val). if i \<noteq> j \<and> val \<ge> th then add_edge i j val G else G)
                (add_node i G) row) G corr_df))
     = fst ` set (adj G) \<union>
       {(a, b). \<exists>i row j val. (i, row) \<in> set corr_df \<and> (j, val) \<in> set row \<and> i \<noteq> j \<and> val \<ge> th \<and>
                  ((a, b) = (i, j) \<or> (a, b) = (j, i))}"
proof (induction corr_df arbitrary: G)
  case Nil
  then show ?case by simp
next
  case (Cons p corr_df)
  obtain i row where p: "p = (i, row)" by (cases p)
  show ?case
    unfolding p foldl_Cons
    apply (subst Cons.IH)
    apply (simp add: keys_row adj_add_node)
    apply (rule set_eqI)
    apply (simp only: Un_iff mem_Collect_eq set_simps insert_iff)
    apply blast
    done
qed

lemma edges_build_graph:
  "(a, b) \<in> fst ` set (adj (build_graph corr_df th)) \<longleftrightarrow>
     a \<noteq> b \<and> ((\<exists>row val. (a, row) \<in> set corr_df \<and> (b, val) \<in> set row \<and> val \<ge> th) \<or>
               (\<exists>row val. (b, row) \<in> set corr_df \<and> (a, val) \<in> set row \<and> val \<ge> th))"
  unfolding build_graph_def keys_build by auto


lemma entry_at_least_one:
  assumes "\<forall>(i, row) \<in> set corr_df. \<forall>(j, val) \<in> set row. 0 \<le> val \<and> val \<le> (1::rat)"
  shows "(i, row) \<in> set corr_df \<Longrightarrow> (j, val) \<in> set row \<Longrightarrow> (val \<ge> 1 \<longleftrightarrow> val = 1)"
proof -
  assume a: "(i, row) \<in> set corr_df" "(j, val) \<in> set row"
  from assms a(1) have "\<forall>(j, val) \<in> set row. 0 \<le> val \<and> val \<le> 1" by blast
  with a(2) have "val \<le> 1" by blast
  then show ?thesis by auto
qed

text \<open>
  C6, as amended. With threshold 1 and every entry of the association matrix in [0,1],
  the graph has an edge between a and b exactly when a and b are different labels and an
  entry for the pair, in either order, equals 1; it has no edge at all, and no self-loop,
  exactly when every entry between different labels is below 1.
\<close>

theorem threshold_one_edges:
  assumes "\<forall>(i, row) \<in> set corr_df. \<forall>(j, val) \<in> set row. 0 \<le> val \<and> val \<le> 1"
  shows "((a, b) \<in> fst ` set (adj (build_graph corr_df 1)) \<longleftrightarrow>
           a \<noteq> b \<and> ((\<exists>row. (a, row) \<in> set corr_df \<and> (b, 1) \<in> set row) \<or>
                     (\<exists>row. (b, row) \<in> set corr_df \<and> (a, 1) \<in> set row))) \<and>
         (adj (build_graph corr_df 1) = [] \<longleftrightarrow>
           (\<forall>(i, row) \<in> set corr_df. \<forall>(j, val) \<in> set row. i \<noteq> j \<longrightarrow> val < 1))"
proof
  note o = entry_at_least_one[OF assms]
  have l: "\<And>x y. (\<exists>row val. (x, row) \<in> set corr_df \<and> (y, val) \<in> set row \<and> val \<ge> 1)
              \<longleftrightarrow> (\<exists>row. (x, row) \<in> set corr_df \<and> (y, 1) \<in> set row)"
  proof
    fix x y
    assume "\<exists>row val. (x, row) \<in> set corr_df \<and> (y, val) \<in> set row \<and> val \<ge> 1"
    then obtain row val where r: "(x, row) \<in> set corr_df" "(y, val) \<in> set row" "val \<ge> 1" by blast
    from o[OF r(1,2)] r(3) have "val = 1" by simp
    with r show "\<exists>row. (x, row) \<in> set corr_df \<and> (y, 1) \<in> set row" by blast
  next
    fix x y
    assume "\<exists>row. (x, row) \<in> set corr_df \<and> (y, 1) \<in> set row"
    then obtain row where "(x, row) \<in> set corr_df" "(y, 1) \<in> set row" by blast
    then have "(x, row) \<in> set corr_df \<and> (y, 1) \<in> set row \<and> (1::rat) \<ge> 1" by simp
    then show "\<exists>row val. (x, row) \<in> set corr_df \<and> (y, val) \<in> set row \<and> val \<ge> 1" by blast
  qed
  show "(a, b) \<in> fst ` set (adj (build_graph corr_df 1)) \<longleftrightarrow>
           a \<noteq> b \<and> ((\<exists>row. (a, row) \<in> set corr_df \<and> (b, 1) \<in> set row) \<or>
                     (\<exists>row. (b, row) \<in> set corr_df \<and> (a, 1) \<in> set row))"
    unfolding edges_build_graph l ..
  show "adj (build_graph corr_df 1) = [] \<longleftrightarrow>
           (\<forall>(i, row) \<in> set corr_df. \<forall>(j, val) \<in> set row. i \<noteq> j \<longrightarrow> val < 1)"
  proof
    assume e: "adj (build_graph corr_df 1) = []"
    show "\<forall>(i, row) \<in> set corr_df. \<forall>(j, val) \<in> set row. i \<noteq> j \<longrightarrow> val < 1"
    proof (clarify)
      fix i row j val
      assume h: "(i, row) \<in> set corr_df" "(j, val) \<in> set row" "i \<noteq> j"
      have "(i, j) \<notin> fst ` set (adj (build_graph corr_df 1))" using e by simp
      then have "\<not> (\<exists>row val. (i, row) \<in> set corr_df \<and> (j, val) \<in> set row \<and> val \<ge> 1)"
        unfolding edges_build_graph using h(3) by simp
      with h(1,2) have "\<not> val \<ge> 1" by blast
      then show "val < 1" by simp
    qed
  next
    assume n: "\<forall>(i, row) \<in> set corr_df. \<forall>(j, val) \<in> set row. i \<noteq> j \<longrightarrow> val < 1"
    show "adj (build_graph corr_df 1) = []"
    proof (cases "adj (build_graph corr_df 1)")
      case Nil
      then show ?thesis .
    next
      case (Cons e es)
      obtain x y where xy: "fst e = (x, y)" by (cases "fst e")
      have "fst e \<in> fst ` set (adj (build_graph corr_df 1))" unfolding Cons by simp
      then have "(x, y) \<in> fst ` set (adj (build_graph corr_df 1))" unfolding xy .
      then have "(\<exists>row val. (x, row) \<in> set corr_df \<and> (y, val) \<in> set row \<and> val \<ge> 1) \<or>
               (\<exists>row val. (y, row) \<in> set corr_df \<and> (x, val) \<in> set row \<and> val \<ge> 1)"
        and ne: "x \<noteq> y"
        unfolding edges_build_graph by simp_all
      then obtain i row j val where h: "(i, row) \<in> set corr_df" "(j, val) \<in> set row" "i \<noteq> j" "val \<ge> 1"
        using ne by metis
      from n h(1) have "\<forall>(j, val) \<in> set row. i \<noteq> j \<longrightarrow> val < 1" by blast
      with h(2,3) have "val < 1" by blast
      with h(4) show ?thesis by simp
    qed
  qed
qed

theorem threshold_one_edges_witness:
  "adj (build_graph [(''a'', [(''a'', 1), (''b'', 1 / 2)]), (''b'', [(''a'', 1 / 2), (''b'', 1)])] 1) = [] \<and>
   (''a'', ''b'') \<notin> fst ` set (adj (build_graph [(''a'', [(''a'', 1), (''b'', 1 / 2)]), (''b'', [(''a'', 1 / 2), (''b'', 1)])] 1)) \<and>
   nodes (build_graph [(''a'', [(''a'', 1), (''b'', 1 / 2)]), (''b'', [(''a'', 1 / 2), (''b'', 1)])] 1) = [''a'', ''b'']"
proof -
  have h: "\<forall>(i, row) \<in> set [(''a'', [(''a'', 1), (''b'', 1 / 2 :: rat)]), (''b'', [(''a'', 1 / 2), (''b'', 1)])].
             \<forall>(j, val) \<in> set row. 0 \<le> val \<and> val \<le> 1"
    by simp
  have n: "nodes (build_graph [(''a'', [(''a'', 1), (''b'', 1 / 2)]), (''b'', [(''a'', 1 / 2), (''b'', 1)])] 1) = [''a'', ''b'']"
    by (simp add: build_graph_def add_node_def)
  have "adj (build_graph [(''a'', [(''a'', 1), (''b'', 1 / 2)]), (''b'', [(''a'', 1 / 2), (''b'', 1)])] 1) = []"
    using threshold_one_edges[OF h, of "''a''" "''b''"] by simp
  with n show ?thesis by simp
qed

text \<open>
  C6 as stated fails: for two clusters whose association is 1, all entries in [0,1], the
  graph at threshold 1 has the edge between them.
\<close>

theorem threshold_one_counterexample:
  "adj (build_graph [(''a'', [(''a'', 1), (''b'', 1)]), (''b'', [(''a'', 1), (''b'', 1)])] 1)
     = [((''a'', ''b''), 1), ((''b'', ''a''), 1)]"
  by (simp add: build_graph_def add_node_def add_edge_def)

section \<open>The association matrix\<close>




















end
